theory Spec2Isabelle
  imports Main
begin

section \<open>The IO layer of yijinjing: addresses, publisher, observer, master service\<close>

text \<open>
  The development follows \<^verbatim>\<open>core/cpp/yijinjing/src/io/io.cpp\<close>. That file defines
  the IPC address factory, the two publishers, the observer, the master service client and
  the two IO devices. The location, the protocol enumeration and the nanomsg socket wrapper
  are declared in headers that the file only includes; they are described first.
\<close>

subsection \<open>Locations and protocol roles\<close>

text \<open>
  Modelled from the spec: the enumeration \<^verbatim>\<open>data::mode\<close> is declared outside
  \<^verbatim>\<open>io.cpp\<close>, which names only \<^verbatim>\<open>mode::LIVE\<close>. The data model speaks of
  "live vs. simulated/replay".
\<close>

datatype mode = LIVE | REPLAY

text \<open>
  Modelled from the spec: the enumeration \<^verbatim>\<open>data::category\<close> is declared outside
  \<^verbatim>\<open>io.cpp\<close>, which names only \<^verbatim>\<open>category::SYSTEM\<close>. The data model speaks of
  "system-level vs. application-level".
\<close>

datatype category = SYSTEM | APPLICATION

text \<open>
  Modelled from the spec: the class \<^verbatim>\<open>data::location\<close> is declared outside
  \<^verbatim>\<open>io.cpp\<close>, which constructs it as \<^verbatim>\<open>location(mode, category, group, name)\<close>
  and reads its fields \<^verbatim>\<open>category\<close>, \<^verbatim>\<open>group\<close> and \<^verbatim>\<open>name\<close>.
\<close>

record location =
  mode :: mode
  category :: category
  group :: string
  name :: string

text \<open>
  Modelled from the spec: the enumeration \<^verbatim>\<open>nanomsg::protocol\<close> is declared outside
  \<^verbatim>\<open>io.cpp\<close>, which names \<^verbatim>\<open>PUSH\<close>, \<^verbatim>\<open>SUBSCRIBE\<close> and \<^verbatim>\<open>REQUEST\<close>.
  The data model lists the three pairs \<open>{PUSH, PULL}\<close>, \<open>{PUBLISH, SUBSCRIBE}\<close> and
  \<open>{REQUEST, REPLY}\<close>.
\<close>

datatype protocol = REPLY | REQUEST | PUSH | PULL | PUBLISH | SUBSCRIBE

text \<open>
  Modelled from the spec: the function \<^verbatim>\<open>get_opposite_protol\<close> is defined outside
  \<^verbatim>\<open>io.cpp\<close>, which only calls it. The data model gives every role exactly one
  opposite: PUSH and PULL, PUBLISH and SUBSCRIBE, REQUEST and REPLY.
\<close>

fun get_opposite_protol :: "protocol \<Rightarrow> protocol" where
  "get_opposite_protol PUSH = PULL"
| "get_opposite_protol PULL = PUSH"
| "get_opposite_protol PUBLISH = SUBSCRIBE"
| "get_opposite_protol SUBSCRIBE = PUBLISH"
| "get_opposite_protol REQUEST = REPLY"
| "get_opposite_protol REPLY = REQUEST"

text \<open>
  The constants and name tables that \<^verbatim>\<open>io.cpp\<close> takes from its headers and whose
  values the spec leaves to the deployment: the socket base directory
  \<^verbatim>\<open>KF_DIR_SOCKET\<close>, the tables \<^verbatim>\<open>get_category_name\<close> and
  \<^verbatim>\<open>get_protocol_name\<close>, and the observer's \<^verbatim>\<open>DEFAULT_NOTICE_TIMEOUT\<close>.
  They are parameters of everything below.
\<close>

record deployment =
  KF_DIR_SOCKET :: string
  get_category_name :: "category \<Rightarrow> string"
  get_protocol_name :: "protocol \<Rightarrow> string"
  DEFAULT_NOTICE_TIMEOUT :: int

text \<open>
  Modelled from the spec: the function \<^verbatim>\<open>util::make_path\<close> is defined outside
  \<^verbatim>\<open>io.cpp\<close>. The address format
  \<^verbatim>\<open><scheme>://<base-socket-dir>/<category-name>/<group>/<name>.<protocol-role-name>\<close>
  puts one slash between the components that \<^verbatim>\<open>make_path\<close> receives.
\<close>

fun make_path :: "string list \<Rightarrow> string" where
  "make_path [] = []"
| "make_path [x] = x"
| "make_path (x # y # ys) = x @ ''/'' @ make_path (y # ys)"

subsection \<open>The address factory\<close>

text \<open>
  \<^verbatim>\<open>url_factory\<close> is an interface with two virtual methods; an object of it is the
  pair of its methods. \<^verbatim>\<open>ipc_url_factory\<close> is the one implementation in the file.
\<close>

record url_factory =
  make_url_bind :: "location \<Rightarrow> protocol \<Rightarrow> string"
  make_url_connect :: "location \<Rightarrow> protocol \<Rightarrow> string"

definition ipc_make_url_bind :: "deployment \<Rightarrow> location \<Rightarrow> protocol \<Rightarrow> string" where
  "ipc_make_url_bind D loc p =
     (let socket_dir = make_path [KF_DIR_SOCKET D, get_category_name D (category loc), group loc]
      in ''ipc://'' @ socket_dir @ ''/'' @ name loc @ ''.'' @ get_protocol_name D p)"

definition ipc_make_url_connect :: "deployment \<Rightarrow> location \<Rightarrow> protocol \<Rightarrow> string" where
  "ipc_make_url_connect D loc p =
     (let socket_dir = make_path [KF_DIR_SOCKET D, get_category_name D (category loc), group loc]
      in ''ipc://'' @ socket_dir @ ''/'' @ name loc @ ''.''
           @ get_protocol_name D (get_opposite_protol p))"

definition ipc_url_factory :: "deployment \<Rightarrow> url_factory" where
  "ipc_url_factory D =
     \<lparr>make_url_bind = ipc_make_url_bind D, make_url_connect = ipc_make_url_connect D\<rparr>"

subsection \<open>The transport and the socket wrapper\<close>

text \<open>
  The exceptions that reach a caller of this layer: \<^verbatim>\<open>journal_error\<close>, which
  \<^verbatim>\<open>io.cpp\<close> throws with a message, and the transport error that the socket wrapper
  raises.
\<close>

datatype error = Journal_error string | Nn_exception

text \<open>
  The nanomsg option levels and option names that \<^verbatim>\<open>io.cpp\<close> passes to
  \<^verbatim>\<open>setsockopt_int\<close> and \<^verbatim>\<open>setsockopt_str\<close>.
\<close>

datatype sockopt_level = NN_SOL_SOCKET | NN_SUB

datatype sockopt_name = NN_RCVTIMEO | NN_SUB_SUBSCRIBE

text \<open>
  Modelled from the spec: the message transport is an external collaborator with
  connect, bind, send, receive and timeout primitives. A call of one of them on a socket
  is a value of \<open>nn_call\<close>; a receive ends with a frame, with a timeout, or never.
\<close>

datatype nn_call =
    Nn_socket protocol
  | Nn_connect string
  | Nn_bind string
  | Nn_setsockopt_int sockopt_level sockopt_name int
  | Nn_setsockopt_str sockopt_level sockopt_name string
  | Nn_send string
  | Nn_recv

datatype recv_outcome = Frame string | Timed_out | Blocked

text \<open>
  Modelled from the spec: the transport is the environment of the program. Given the calls
  made so far on a socket, the last one being the call at hand, it decides whether that
  call fails with a transport error (\<open>refuses\<close>), which status a send reports
  (\<open>send_status\<close>), and how a receive ends (\<open>inbound\<close>). Every theorem below holds for
  every transport.
\<close>

record transport =
  refuses :: "nn_call list \<Rightarrow> bool"
  send_status :: "nn_call list \<Rightarrow> int"
  inbound :: "nn_call list \<Rightarrow> recv_outcome"

text \<open>
  Modelled from the spec: the class \<^verbatim>\<open>nanomsg::socket\<close> is defined outside
  \<^verbatim>\<open>io.cpp\<close>, which uses its constructor and its methods \<^verbatim>\<open>get_protocol\<close>,
  \<^verbatim>\<open>connect\<close>, \<^verbatim>\<open>bind\<close>, \<^verbatim>\<open>setsockopt_int\<close>, \<^verbatim>\<open>setsockopt_str\<close>,
  \<^verbatim>\<open>send\<close>, \<^verbatim>\<open>recv\<close>, \<^verbatim>\<open>recv_msg\<close> and \<^verbatim>\<open>last_message\<close>. A socket
  keeps its role, the transport calls made on it (oldest first) and the content of the
  message it received last. A transport error propagates to the caller as an exception;
  a send returns the transport's status; a receive returns the length of the frame received
  and keeps its content, or returns \<open>-1\<close> on a timeout and keeps the content it had;
  \<open>None\<close> is a receive that never returns. Statuses and lengths are \<^verbatim>\<open>int\<close> in the
  source and unbounded integers here: a frame is shorter than \<open>2^31\<close> bytes.

  Names that end in an underscore are reserved in Isabelle, so the members
  \<^verbatim>\<open>socket_\<close>, \<^verbatim>\<open>low_latency_\<close>, \<^verbatim>\<open>lazy_\<close>, \<^verbatim>\<open>publisher_\<close> and the
  like carry a prefix for their class instead.
\<close>

record socket =
  sock_protocol :: protocol
  calls :: "nn_call list"
  sock_message :: string

definition socket_new :: "transport \<Rightarrow> protocol \<Rightarrow> error + socket" where
  "socket_new T p =
     (if refuses T [Nn_socket p] then Inl Nn_exception
      else Inr \<lparr>sock_protocol = p, calls = [Nn_socket p], sock_message = []\<rparr>)"

definition get_protocol :: "socket \<Rightarrow> protocol" where
  "get_protocol s = sock_protocol s"

definition socket_call :: "transport \<Rightarrow> nn_call \<Rightarrow> socket \<Rightarrow> error + socket" where
  "socket_call T c s =
     (if refuses T (calls s @ [c]) then Inl Nn_exception else Inr (s\<lparr>calls := calls s @ [c]\<rparr>))"

definition socket_connect :: "transport \<Rightarrow> string \<Rightarrow> socket \<Rightarrow> error + socket" where
  "socket_connect T url s = socket_call T (Nn_connect url) s"

definition socket_bind :: "transport \<Rightarrow> string \<Rightarrow> socket \<Rightarrow> error + socket" where
  "socket_bind T url s = socket_call T (Nn_bind url) s"

definition setsockopt_int ::
  "transport \<Rightarrow> sockopt_level \<Rightarrow> sockopt_name \<Rightarrow> int \<Rightarrow> socket \<Rightarrow> error + socket" where
  "setsockopt_int T level option_name v s = socket_call T (Nn_setsockopt_int level option_name v) s"

definition setsockopt_str ::
  "transport \<Rightarrow> sockopt_level \<Rightarrow> sockopt_name \<Rightarrow> string \<Rightarrow> socket \<Rightarrow> error + socket" where
  "setsockopt_str T level option_name v s = socket_call T (Nn_setsockopt_str level option_name v) s"

definition socket_send :: "transport \<Rightarrow> string \<Rightarrow> socket \<Rightarrow> (error + int) \<times> socket" where
  "socket_send T msg s =
     (let h = calls s @ [Nn_send msg]
      in (if refuses T h then Inl Nn_exception else Inr (send_status T h), s\<lparr>calls := h\<rparr>))"

definition socket_recv :: "transport \<Rightarrow> socket \<Rightarrow> ((error + int) \<times> socket) option" where
  "socket_recv T s =
     (let h = calls s @ [Nn_recv]
      in if refuses T h then Some (Inl Nn_exception, s\<lparr>calls := h\<rparr>)
         else (case inbound T h of
                 Frame bytes \<Rightarrow>
                   Some (Inr (int (length bytes)), s\<lparr>calls := h, sock_message := bytes\<rparr>)
               | Timed_out \<Rightarrow> Some (Inr (- 1), s\<lparr>calls := h\<rparr>)
               | Blocked \<Rightarrow> None))"

definition last_message :: "socket \<Rightarrow> string" where
  "last_message s = sock_message s"

definition socket_recv_msg :: "transport \<Rightarrow> socket \<Rightarrow> ((error + string) \<times> socket) option" where
  "socket_recv_msg T s =
     (case socket_recv T s of
        None \<Rightarrow> None
      | Some (Inl e, s') \<Rightarrow> Some (Inl e, s')
      | Some (Inr n, s') \<Rightarrow> Some (Inr (sock_message s'), s'))"

text \<open>The payloads of the sends among the calls of a socket, oldest first.\<close>

fun sent_payloads :: "nn_call list \<Rightarrow> string list" where
  "sent_payloads [] = []"
| "sent_payloads (Nn_send msg # cs) = msg # sent_payloads cs"
| "sent_payloads (c # cs) = sent_payloads cs"

subsection \<open>The publishers\<close>

text \<open>
  \<^verbatim>\<open>publisher\<close> is an interface with the methods \<^verbatim>\<open>notify\<close> and
  \<^verbatim>\<open>publish\<close>; \<^verbatim>\<open>noop_publisher\<close> has no field, \<^verbatim>\<open>nanomsg_publisher\<close>
  has a flag and a socket. A method returns its result, an exception being \<open>Inl\<close>, and the
  object after the call.
\<close>

record nanomsg_publisher =
  pub_low_latency :: bool
  pub_socket :: socket

datatype publisher = Noop_publisher | Nanomsg_publisher nanomsg_publisher

definition noop_publisher_notify :: "error + int" where
  "noop_publisher_notify = Inr 0"

definition noop_publisher_publish :: "string \<Rightarrow> error + int" where
  "noop_publisher_publish json_message =
     Inl (Journal_error ''noop publisher does not publish anything'')"

definition new_nanomsg_publisher ::
  "transport \<Rightarrow> url_factory \<Rightarrow> bool \<Rightarrow> error + nanomsg_publisher" where
  "new_nanomsg_publisher T factory low_latency =
     (case socket_new T PUSH of
        Inl e \<Rightarrow> Inl e
      | Inr s \<Rightarrow>
          let url = make_url_connect factory
                      \<lparr>mode = LIVE, category = SYSTEM, group = ''master'', name = ''master''\<rparr>
                      (get_protocol s)
          in (case socket_connect T url s of
                Inl e \<Rightarrow> Inl e
              | Inr s' \<Rightarrow> Inr \<lparr>pub_low_latency = low_latency, pub_socket = s'\<rparr>))"

definition nanomsg_publisher_publish ::
  "transport \<Rightarrow> string \<Rightarrow> nanomsg_publisher \<Rightarrow> (error + int) \<times> nanomsg_publisher" where
  "nanomsg_publisher_publish T json_message p =
     (case socket_send T json_message (pub_socket p) of
        (r, s') \<Rightarrow> (r, p\<lparr>pub_socket := s'\<rparr>))"

definition nanomsg_publisher_notify ::
  "transport \<Rightarrow> nanomsg_publisher \<Rightarrow> (error + int) \<times> nanomsg_publisher" where
  "nanomsg_publisher_notify T p =
     (if pub_low_latency p then (Inr 0, p) else nanomsg_publisher_publish T ''{}'' p)"

fun notify :: "transport \<Rightarrow> publisher \<Rightarrow> (error + int) \<times> publisher" where
  "notify T Noop_publisher = (noop_publisher_notify, Noop_publisher)"
| "notify T (Nanomsg_publisher p) =
     (case nanomsg_publisher_notify T p of (r, p') \<Rightarrow> (r, Nanomsg_publisher p'))"

fun publish :: "transport \<Rightarrow> string \<Rightarrow> publisher \<Rightarrow> (error + int) \<times> publisher" where
  "publish T json_message Noop_publisher = (noop_publisher_publish json_message, Noop_publisher)"
| "publish T json_message (Nanomsg_publisher p) =
     (case nanomsg_publisher_publish T json_message p of (r, p') \<Rightarrow> (r, Nanomsg_publisher p'))"

text \<open>The transport calls a publisher has made: none for the one without a socket.\<close>

fun publisher_calls :: "publisher \<Rightarrow> nn_call list" where
  "publisher_calls Noop_publisher = []"
| "publisher_calls (Nanomsg_publisher p) = calls (pub_socket p)"

subsection \<open>The observer\<close>

record nanomsg_observer =
  obs_socket :: socket

definition new_nanomsg_observer ::
  "transport \<Rightarrow> deployment \<Rightarrow> url_factory \<Rightarrow> bool \<Rightarrow> error + nanomsg_observer" where
  "new_nanomsg_observer T D factory low_latency =
     (case socket_new T SUBSCRIBE of
        Inl e \<Rightarrow> Inl e
      | Inr s \<Rightarrow>
          let timeout = (if low_latency then 0 else DEFAULT_NOTICE_TIMEOUT D);
              url = make_url_connect factory
                      \<lparr>mode = LIVE, category = SYSTEM, group = ''master'', name = ''master''\<rparr>
                      (get_protocol s)
          in (case socket_connect T url s of
                Inl e \<Rightarrow> Inl e
              | Inr s1 \<Rightarrow>
                  (case setsockopt_int T NN_SOL_SOCKET NN_RCVTIMEO timeout s1 of
                     Inl e \<Rightarrow> Inl e
                   | Inr s2 \<Rightarrow>
                       (case setsockopt_str T NN_SUB NN_SUB_SUBSCRIBE [] s2 of
                          Inl e \<Rightarrow> Inl e
                        | Inr s3 \<Rightarrow> Inr \<lparr>obs_socket = s3\<rparr>))))"

definition wait :: "transport \<Rightarrow> nanomsg_observer \<Rightarrow> ((error + bool) \<times> nanomsg_observer) option" where
  "wait T ob =
     (case socket_recv T (obs_socket ob) of
        None \<Rightarrow> None
      | Some (Inl e, s') \<Rightarrow> Some (Inl e, ob\<lparr>obs_socket := s'\<rparr>)
      | Some (Inr n, s') \<Rightarrow> Some (Inr (n > 2), ob\<lparr>obs_socket := s'\<rparr>))"

definition get_notice :: "nanomsg_observer \<Rightarrow> string" where
  "get_notice ob = last_message (obs_socket ob)"

subsection \<open>The master service client\<close>

record nanomsg_master_service =
  svc_socket :: socket

definition new_nanomsg_master_service ::
  "transport \<Rightarrow> url_factory \<Rightarrow> error + nanomsg_master_service" where
  "new_nanomsg_master_service T factory =
     (case socket_new T REQUEST of
        Inl e \<Rightarrow> Inl e
      | Inr s \<Rightarrow>
          let url = make_url_connect factory
                      \<lparr>mode = LIVE, category = SYSTEM, group = ''master'', name = ''master''\<rparr>
                      (get_protocol s)
          in (case socket_connect T url s of
                Inl e \<Rightarrow> Inl e
              | Inr s' \<Rightarrow> Inr \<lparr>svc_socket = s'\<rparr>))"

text \<open>
  \<^verbatim>\<open>request\<close> discards what the send returns; an exception of the send leaves the
  method before the receive.
\<close>

definition request ::
  "transport \<Rightarrow> string \<Rightarrow> nanomsg_master_service
     \<Rightarrow> ((error + string) \<times> nanomsg_master_service) option" where
  "request T json_message svc =
     (case socket_send T json_message (svc_socket svc) of
        (Inl e, s') \<Rightarrow> Some (Inl e, svc\<lparr>svc_socket := s'\<rparr>)
      | (Inr rc, s') \<Rightarrow>
          (case socket_recv_msg T s' of
             None \<Rightarrow> None
           | Some (r, s'') \<Rightarrow> Some (r, svc\<lparr>svc_socket := s''\<rparr>)))"

subsection \<open>The IO devices\<close>

text \<open>
  Modelled from the spec: the journal classes \<^verbatim>\<open>reader\<close> and \<^verbatim>\<open>writer\<close> are
  defined outside \<^verbatim>\<open>io.cpp\<close> and are out of the layer's scope; the lazy flag is
  "passed through opaquely". A reader is what its constructor received and the
  subscriptions made on it, a writer is what its constructor received.
\<close>

record reader =
  reader_lazy :: bool
  reader_subscriptions :: "(location \<times> int) list"

record writer =
  writer_location :: location
  writer_lazy :: bool
  writer_publisher :: "publisher option"

definition new_reader :: "bool \<Rightarrow> reader" where
  "new_reader lazy = \<lparr>reader_lazy = lazy, reader_subscriptions = []\<rparr>"

definition subscribe :: "location \<Rightarrow> int \<Rightarrow> reader \<Rightarrow> reader" where
  "subscribe loc dest r = r\<lparr>reader_subscriptions := reader_subscriptions r @ [(loc, dest)]\<rparr>"

definition new_writer :: "location \<Rightarrow> bool \<Rightarrow> publisher option \<Rightarrow> writer" where
  "new_writer loc lazy pub = \<lparr>writer_location = loc, writer_lazy = lazy, writer_publisher = pub\<rparr>"

text \<open>
  The fields of \<^verbatim>\<open>io_device\<close> that \<^verbatim>\<open>io.cpp\<close> writes. \<^verbatim>\<open>publisher_\<close> is a
  shared pointer that the constructor leaves null (\<open>None\<close>) and the factories set.
\<close>

record io_device =
  dev_low_latency :: bool
  dev_lazy :: bool
  dev_url_factory :: url_factory
  dev_publisher :: "publisher option"

definition new_io_device :: "deployment \<Rightarrow> bool \<Rightarrow> bool \<Rightarrow> io_device" where
  "new_io_device D low_latency lazy =
     \<lparr>dev_low_latency = low_latency, dev_lazy = lazy, dev_url_factory = ipc_url_factory D,
      dev_publisher = None\<rparr>"

text \<open>
  Modelled from the spec: the accessors \<^verbatim>\<open>get_url_factory\<close> and
  \<^verbatim>\<open>is_low_latency\<close> are defined outside \<^verbatim>\<open>io.cpp\<close>; the device "owns the
  Address Resolver ... and a low_latency flag", which they read.
\<close>

definition get_url_factory :: "'a io_device_scheme \<Rightarrow> url_factory" where
  "get_url_factory d = dev_url_factory d"

definition is_low_latency :: "'a io_device_scheme \<Rightarrow> bool" where
  "is_low_latency d = dev_low_latency d"

text \<open>
  \<^verbatim>\<open>io_device::create_io_device\<close> calls the constructor with one argument; the
  default of the second, \<^verbatim>\<open>lazy\<close>, is in the header and is a parameter here.
\<close>

definition io_device_create_io_device :: "deployment \<Rightarrow> bool \<Rightarrow> bool \<Rightarrow> io_device" where
  "io_device_create_io_device D lazy_default low_latency =
     (let r = new_io_device D low_latency lazy_default
      in r\<lparr>dev_publisher := Some Noop_publisher\<rparr>)"

definition open_reader_to_subscribe :: "'a io_device_scheme \<Rightarrow> reader" where
  "open_reader_to_subscribe d = new_reader (dev_lazy d)"

definition open_reader :: "'a io_device_scheme \<Rightarrow> location \<Rightarrow> reader" where
  "open_reader d loc = (let r = new_reader (dev_lazy d) in subscribe loc 0 r)"

definition open_writer :: "'a io_device_scheme \<Rightarrow> location \<Rightarrow> writer" where
  "open_writer d loc = new_writer loc (dev_lazy d) (dev_publisher d)"

definition connect_socket ::
  "transport \<Rightarrow> 'a io_device_scheme \<Rightarrow> location \<Rightarrow> protocol \<Rightarrow> int \<Rightarrow> error + socket" where
  "connect_socket T d loc p timeout =
     (case socket_new T p of
        Inl e \<Rightarrow> Inl e
      | Inr s \<Rightarrow>
          let url = make_url_connect (dev_url_factory d) loc p
          in (case socket_connect T url s of
                Inl e \<Rightarrow> Inl e
              | Inr s' \<Rightarrow> setsockopt_int T NN_SOL_SOCKET NN_RCVTIMEO timeout s'))"

definition bind_socket ::
  "transport \<Rightarrow> 'a io_device_scheme \<Rightarrow> location \<Rightarrow> protocol \<Rightarrow> int \<Rightarrow> error + socket" where
  "bind_socket T d loc p timeout =
     (case socket_new T p of
        Inl e \<Rightarrow> Inl e
      | Inr s \<Rightarrow>
          let url = make_url_bind (dev_url_factory d) loc p
          in (case socket_bind T url s of
                Inl e \<Rightarrow> Inl e
              | Inr s' \<Rightarrow> setsockopt_int T NN_SOL_SOCKET NN_RCVTIMEO timeout s'))"

record io_device_client = io_device +
  client_name :: string
  client_observer :: nanomsg_observer
  client_service :: nanomsg_master_service

definition new_io_device_client ::
  "transport \<Rightarrow> deployment \<Rightarrow> string \<Rightarrow> bool \<Rightarrow> error + io_device_client" where
  "new_io_device_client T D nm low_latency =
     (let base = new_io_device D low_latency True
      in (case new_nanomsg_observer T D (get_url_factory base) (is_low_latency base) of
            Inl e \<Rightarrow> Inl e
          | Inr ob \<Rightarrow>
              (case new_nanomsg_master_service T (get_url_factory base) of
                 Inl e \<Rightarrow> Inl e
               | Inr svc \<Rightarrow>
                   Inr (io_device.extend base
                          (io_device_client.fields nm ob svc)))))"

definition client_create_io_device ::
  "transport \<Rightarrow> deployment \<Rightarrow> string \<Rightarrow> bool \<Rightarrow> error + io_device_client" where
  "client_create_io_device T D nm low_latency =
     (case new_io_device_client T D nm low_latency of
        Inl e \<Rightarrow> Inl e
      | Inr r \<Rightarrow>
          (case new_nanomsg_publisher T (get_url_factory r) low_latency of
             Inl e \<Rightarrow> Inl e
           | Inr p \<Rightarrow> Inr (r\<lparr>dev_publisher := Some (Nanomsg_publisher p)\<rparr>)))"

text \<open>
  The life of a client device: the calls its owner can make, on the device itself and on
  the publisher, the observer and the master service it holds. A step gives the device
  after the call; \<open>None\<close> is a call that does not return, or a call through the null
  publisher pointer.
\<close>

datatype device_call =
    Open_reader_to_subscribe
  | Open_reader location
  | Open_writer location
  | Connect_socket location protocol int
  | Bind_socket location protocol int
  | Publisher_notify
  | Publisher_publish string
  | Observer_wait
  | Observer_get_notice
  | Service_request string

fun device_step :: "transport \<Rightarrow> device_call \<Rightarrow> io_device_client \<Rightarrow> io_device_client option" where
  "device_step T Open_reader_to_subscribe d = (case open_reader_to_subscribe d of r \<Rightarrow> Some d)"
| "device_step T (Open_reader loc) d = (case open_reader d loc of r \<Rightarrow> Some d)"
| "device_step T (Open_writer loc) d = (case open_writer d loc of w \<Rightarrow> Some d)"
| "device_step T (Connect_socket loc p timeout) d =
     (case connect_socket T d loc p timeout of r \<Rightarrow> Some d)"
| "device_step T (Bind_socket loc p timeout) d =
     (case bind_socket T d loc p timeout of r \<Rightarrow> Some d)"
| "device_step T Publisher_notify d =
     (case dev_publisher d of
        None \<Rightarrow> None
      | Some pub \<Rightarrow> (case notify T pub of (r, pub') \<Rightarrow> Some (d\<lparr>dev_publisher := Some pub'\<rparr>)))"
| "device_step T (Publisher_publish msg) d =
     (case dev_publisher d of
        None \<Rightarrow> None
      | Some pub \<Rightarrow> (case publish T msg pub of (r, pub') \<Rightarrow> Some (d\<lparr>dev_publisher := Some pub'\<rparr>)))"
| "device_step T Observer_wait d =
     (case wait T (client_observer d) of
        None \<Rightarrow> None
      | Some (r, ob') \<Rightarrow> Some (d\<lparr>client_observer := ob'\<rparr>))"
| "device_step T Observer_get_notice d = (case get_notice (client_observer d) of r \<Rightarrow> Some d)"
| "device_step T (Service_request msg) d =
     (case request T msg (client_service d) of
        None \<Rightarrow> None
      | Some (r, svc') \<Rightarrow> Some (d\<lparr>client_service := svc'\<rparr>))"

fun device_run :: "transport \<Rightarrow> device_call list \<Rightarrow> io_device_client \<Rightarrow> io_device_client option" where
  "device_run T [] d = Some d"
| "device_run T (c # cs) d =
     (case device_step T c d of None \<Rightarrow> None | Some d' \<Rightarrow> device_run T cs d')"

subsection \<open>Reading a socket's configuration\<close>

text \<open>
  The receive timeout in force on a socket: the value of the last
  \<^verbatim>\<open>setsockopt_int(NN_SOL_SOCKET, NN_RCVTIMEO, v)\<close> among its calls, \<open>None\<close> when
  there is none.
\<close>

fun rcvtimeo :: "nn_call list \<Rightarrow> int option" where
  "rcvtimeo [] = None"
| "rcvtimeo (Nn_setsockopt_int NN_SOL_SOCKET NN_RCVTIMEO v # cs) =
     (case rcvtimeo cs of None \<Rightarrow> Some v | Some w \<Rightarrow> Some w)"
| "rcvtimeo (c # cs) = rcvtimeo cs"

subsection \<open>A concrete deployment and concrete transports\<close>

text \<open>
  One deployment and three transports on which the theorems below are instantiated: none
  refuses a call and each reports status 0 for a send; the first delivers the frame
  \<open>hello\<close> to every receive, the second the heartbeat \<open>{}\<close>, the third lets every
  receive time out.
\<close>

definition demo_deployment :: deployment where
  "demo_deployment =
     \<lparr>KF_DIR_SOCKET = ''socket'',
      get_category_name = (\<lambda>c. case c of SYSTEM \<Rightarrow> ''system'' | APPLICATION \<Rightarrow> ''app''),
      get_protocol_name =
        (\<lambda>p. case p of REPLY \<Rightarrow> ''rep'' | REQUEST \<Rightarrow> ''req'' | PUSH \<Rightarrow> ''push''
                      | PULL \<Rightarrow> ''pull'' | PUBLISH \<Rightarrow> ''pub'' | SUBSCRIBE \<Rightarrow> ''sub''),
      DEFAULT_NOTICE_TIMEOUT = 1000\<rparr>"

definition demo_transport :: transport where
  "demo_transport =
     \<lparr>refuses = (\<lambda>h. False), send_status = (\<lambda>h. 0), inbound = (\<lambda>h. Frame ''hello'')\<rparr>"

definition heartbeat_transport :: transport where
  "heartbeat_transport = demo_transport\<lparr>inbound := (\<lambda>h. Frame ''{}'')\<rparr>"

definition quiet_transport :: transport where
  "quiet_transport = demo_transport\<lparr>inbound := (\<lambda>h. Timed_out)\<rparr>"

definition demo_publisher :: nanomsg_publisher where
  "demo_publisher =
     \<lparr>pub_low_latency = False,
      pub_socket =
        \<lparr>sock_protocol = PUSH,
         calls = [Nn_socket PUSH, Nn_connect ''ipc://socket/system/master/master.pull''],
         sock_message = []\<rparr>\<rparr>"

definition demo_observer :: nanomsg_observer where
  "demo_observer =
     \<lparr>obs_socket =
        \<lparr>sock_protocol = SUBSCRIBE,
         calls = [Nn_socket SUBSCRIBE, Nn_connect ''ipc://socket/system/master/master.pub'',
                  Nn_setsockopt_int NN_SOL_SOCKET NN_RCVTIMEO 1000,
                  Nn_setsockopt_str NN_SUB NN_SUB_SUBSCRIBE []],
         sock_message = []\<rparr>\<rparr>"

definition demo_service :: nanomsg_master_service where
  "demo_service =
     \<lparr>svc_socket =
        \<lparr>sock_protocol = REQUEST,
         calls = [Nn_socket REQUEST, Nn_connect ''ipc://socket/system/master/master.rep''],
         sock_message = []\<rparr>\<rparr>"

definition demo_client :: io_device_client where
  "demo_client =
     \<lparr>dev_low_latency = False, dev_lazy = True,
      dev_url_factory = ipc_url_factory demo_deployment,
      dev_publisher = Some (Nanomsg_publisher demo_publisher),
      client_name = ''td'', client_observer = demo_observer, client_service = demo_service\<rparr>"

section \<open>Properties\<close>

lemma get_opposite_protol_involution: "get_opposite_protol (get_opposite_protol p) = p"
  by (cases p) simp_all

subsection \<open>Helper lemmas\<close>

lemmas demo_simps =
  demo_deployment_def ipc_url_factory_def ipc_make_url_bind_def ipc_make_url_connect_def
  socket_new_def socket_call_def socket_connect_def socket_bind_def setsockopt_int_def
  setsockopt_str_def get_protocol_def

lemma sent_payloads_snoc: "sent_payloads (cs @ [Nn_send msg]) = sent_payloads cs @ [msg]"
  by (induction cs rule: sent_payloads.induct) simp_all

lemma device_step_lazy: "device_step T c d = Some d' \<Longrightarrow> dev_lazy d' = dev_lazy d"
  by (cases c) (auto split: option.splits prod.splits sum.splits)

lemma device_run_lazy: "device_run T cs d = Some d' \<Longrightarrow> dev_lazy d' = dev_lazy d"
proof (induction cs arbitrary: d)
  case Nil
  then show ?case by simp
next
  case (Cons c cs)
  then obtain d1 where step: "device_step T c d = Some d1"
    and rest: "device_run T cs d1 = Some d'"
    by (auto split: option.splits)
  from Cons.IH [OF rest] device_step_lazy [OF step] show ?case by simp
qed

lemma new_io_device_client_lazy:
  "new_io_device_client T D nm low_latency = Inr d \<Longrightarrow> dev_lazy d"
  by (auto simp: new_io_device_client_def new_io_device_def io_device.extend_def Let_def
      split: sum.splits)

lemma client_create_io_device_lazy:
  "client_create_io_device T D nm low_latency = Inr d \<Longrightarrow> dev_lazy d"
  by (auto simp: client_create_io_device_def split: sum.splits dest: new_io_device_client_lazy)

lemma demo_publisher_made:
  "new_nanomsg_publisher demo_transport (ipc_url_factory demo_deployment) False =
     Inr demo_publisher"
  by (simp add: new_nanomsg_publisher_def demo_publisher_def demo_transport_def demo_simps)

lemma demo_observer_made:
  "new_nanomsg_observer demo_transport demo_deployment (ipc_url_factory demo_deployment) False =
     Inr demo_observer"
  by (simp add: new_nanomsg_observer_def demo_observer_def demo_transport_def demo_simps)

lemma demo_service_made:
  "new_nanomsg_master_service demo_transport (ipc_url_factory demo_deployment) = Inr demo_service"
  by (simp add: new_nanomsg_master_service_def demo_service_def demo_transport_def demo_simps)

lemma demo_client_constructed:
  "new_io_device_client demo_transport demo_deployment ''td'' False =
     Inr (demo_client\<lparr>dev_publisher := None\<rparr>)"
  by (simp add: new_io_device_client_def new_io_device_def get_url_factory_def
      is_low_latency_def demo_observer_made demo_service_made demo_client_def
      io_device.extend_def io_device_client.fields_def)

lemma demo_client_made:
  "client_create_io_device demo_transport demo_deployment ''td'' False = Inr demo_client"
  by (simp add: client_create_io_device_def demo_client_constructed get_url_factory_def
      demo_client_def demo_publisher_made)

subsection \<open>The claims\<close>

text \<open>
  Claim C1: for every location and every protocol role, the address a role binds to is the
  address the opposite role connects to.
\<close>

theorem make_url_bind_eq_connect_opposite:
  "make_url_bind (ipc_url_factory D) loc p =
   make_url_connect (ipc_url_factory D) loc (get_opposite_protol p)"
  by (simp add: ipc_url_factory_def ipc_make_url_bind_def ipc_make_url_connect_def
      get_opposite_protol_involution)

text \<open>
  Claim C2, as amended: the socket of the active publisher is opened with the role PUSH of
  the one-way pipeline pair, not with a role of the publish/subscribe pair, and it is
  connected to the address that \<open>make_url_connect\<close> gives for the master location and
  that role PUSH.
\<close>

theorem new_nanomsg_publisher_push:
  "new_nanomsg_publisher T factory low_latency = Inr p \<Longrightarrow>
     get_protocol (pub_socket p) = PUSH
     \<and> calls (pub_socket p) =
         [Nn_socket PUSH,
          Nn_connect (make_url_connect factory
            \<lparr>mode = LIVE, category = SYSTEM, group = ''master'', name = ''master''\<rparr> PUSH)]"
  by (auto simp: new_nanomsg_publisher_def socket_new_def socket_connect_def socket_call_def
      get_protocol_def Let_def split: if_splits)

theorem new_nanomsg_publisher_push_witness:
  "new_nanomsg_publisher demo_transport (ipc_url_factory demo_deployment) False =
     Inr demo_publisher
   \<and> get_protocol (pub_socket demo_publisher) = PUSH
   \<and> calls (pub_socket demo_publisher) =
       [Nn_socket PUSH, Nn_connect ''ipc://socket/system/master/master.pull'']"
  using new_nanomsg_publisher_push [OF demo_publisher_made] demo_publisher_made
  by (simp add: demo_simps)

text \<open>
  The claim as the spec words it fails: on the concrete deployment the publisher is
  constructed, and the role of its socket is neither PUBLISH nor SUBSCRIBE.
\<close>

theorem new_nanomsg_publisher_not_broadcast:
  "\<not> (case new_nanomsg_publisher demo_transport (ipc_url_factory demo_deployment) False of
        Inl e \<Rightarrow> True
      | Inr p \<Rightarrow> get_protocol (pub_socket p) = PUBLISH \<or> get_protocol (pub_socket p) = SUBSCRIBE)"
  by (simp add: demo_publisher_made demo_publisher_def get_protocol_def)

text \<open>
  Claim C3: the address is the scheme, the socket base directory, the category name, the
  group, the location name, a dot and a role name, in this order and with a slash between
  the path components; the role name is the role's own for a bind address and the opposite
  role's for a connect address.
\<close>

theorem ipc_url_format:
  "make_url_bind (ipc_url_factory D) loc p =
     ''ipc://'' @ KF_DIR_SOCKET D @ ''/'' @ get_category_name D (category loc) @ ''/''
       @ group loc @ ''/'' @ name loc @ ''.'' @ get_protocol_name D p
   \<and> make_url_connect (ipc_url_factory D) loc p =
     ''ipc://'' @ KF_DIR_SOCKET D @ ''/'' @ get_category_name D (category loc) @ ''/''
       @ group loc @ ''/'' @ name loc @ ''.'' @ get_protocol_name D (get_opposite_protol p)"
  by (simp add: ipc_url_factory_def ipc_make_url_bind_def ipc_make_url_connect_def)

text \<open>
  Claim C4: on the no-op publisher, \<open>notify\<close> returns 0, and \<open>publish\<close> of any message
  raises the journal error with the no-op publisher's message; it returns no status, and
  the publisher has made no transport call afterwards.
\<close>

theorem noop_publisher_contract:
  "notify T Noop_publisher = (Inr 0, Noop_publisher)
   \<and> publish T json_message Noop_publisher =
       (Inl (Journal_error ''noop publisher does not publish anything''), Noop_publisher)
   \<and> publisher_calls (snd (publish T json_message Noop_publisher)) = []"
  by (simp add: noop_publisher_notify_def noop_publisher_publish_def)

text \<open>
  Claim C5: on the active publisher with the low-latency flag set, \<open>notify\<close> returns 0 and
  leaves the publisher, and so the calls of its socket, as they were; with the flag clear
  it appends exactly one call to those of the socket, a send of the two characters \<open>{}\<close>,
  and returns what that send returns.
\<close>

theorem nanomsg_publisher_notify_sends:
  "(pub_low_latency p \<longrightarrow>
      notify T (Nanomsg_publisher p) = (Inr 0, Nanomsg_publisher p))
   \<and> (\<not> pub_low_latency p \<longrightarrow>
      fst (notify T (Nanomsg_publisher p)) = fst (socket_send T ''{}'' (pub_socket p))
      \<and> snd (notify T (Nanomsg_publisher p)) =
          Nanomsg_publisher
            (p\<lparr>pub_socket := (pub_socket p)\<lparr>calls := calls (pub_socket p) @ [Nn_send ''{}'']\<rparr>\<rparr>)
      \<and> sent_payloads (publisher_calls (snd (notify T (Nanomsg_publisher p)))) =
          sent_payloads (publisher_calls (Nanomsg_publisher p)) @ [''{}''])"
  by (simp add: nanomsg_publisher_notify_def nanomsg_publisher_publish_def socket_send_def
      Let_def sent_payloads_snoc split: prod.splits)

theorem nanomsg_publisher_notify_sends_witness:
  "notify demo_transport (Nanomsg_publisher (demo_publisher\<lparr>pub_low_latency := True\<rparr>)) =
     (Inr 0, Nanomsg_publisher (demo_publisher\<lparr>pub_low_latency := True\<rparr>))
   \<and> notify demo_transport (Nanomsg_publisher demo_publisher) =
     (Inr 0,
      Nanomsg_publisher
        \<lparr>pub_low_latency = False,
         pub_socket =
           \<lparr>sock_protocol = PUSH,
            calls = [Nn_socket PUSH, Nn_connect ''ipc://socket/system/master/master.pull'',
                     Nn_send ''{}''],
            sock_message = []\<rparr>\<rparr>)"
  using nanomsg_publisher_notify_sends [of "demo_publisher\<lparr>pub_low_latency := True\<rparr>" demo_transport]
    nanomsg_publisher_notify_sends [of demo_publisher demo_transport]
  by (simp add: demo_transport_def demo_publisher_def socket_send_def prod_eq_iff)

text \<open>
  Claim C6: when the receive of \<open>wait\<close> ends with a frame, \<open>wait\<close> returns true exactly
  when the frame is longer than 2 bytes, and \<open>get_notice\<close> then returns the bytes of that
  frame (it does so for a shorter frame too); when the receive ends with a timeout,
  \<open>wait\<close> returns false.
\<close>

theorem observer_wait_filters:
  assumes "\<not> refuses T (calls (obs_socket ob) @ [Nn_recv])"
  shows "(inbound T (calls (obs_socket ob) @ [Nn_recv]) = Frame bytes \<longrightarrow>
            (\<exists>ob'. wait T ob = Some (Inr (2 < length bytes), ob') \<and> get_notice ob' = bytes))
         \<and> (inbound T (calls (obs_socket ob) @ [Nn_recv]) = Timed_out \<longrightarrow>
            (\<exists>ob'. wait T ob = Some (Inr False, ob')))"
  using assms by (simp add: wait_def socket_recv_def get_notice_def last_message_def Let_def)

theorem observer_wait_filters_witness:
  "(\<exists>ob'. wait demo_transport demo_observer = Some (Inr True, ob') \<and> get_notice ob' = ''hello'')
   \<and> (\<exists>ob'. wait heartbeat_transport demo_observer = Some (Inr False, ob')
            \<and> get_notice ob' = ''{}'')
   \<and> (\<exists>ob'. wait quiet_transport demo_observer = Some (Inr False, ob'))"
  using observer_wait_filters [of demo_transport demo_observer "''hello''"]
    observer_wait_filters [of heartbeat_transport demo_observer "''{}''"]
    observer_wait_filters [of quiet_transport demo_observer "[]"]
  by (simp add: demo_transport_def heartbeat_transport_def quiet_transport_def)

text \<open>
  Claim C7: the one receive timeout that the constructor of the observer configures is 0
  when the low-latency flag is set and the constant \<open>DEFAULT_NOTICE_TIMEOUT\<close> when it is
  clear.
\<close>

theorem observer_receive_timeout:
  "new_nanomsg_observer T D factory low_latency = Inr ob \<Longrightarrow>
     rcvtimeo (calls (obs_socket ob)) =
       Some (if low_latency then 0 else DEFAULT_NOTICE_TIMEOUT D)
     \<and> calls (obs_socket ob) =
         [Nn_socket SUBSCRIBE,
          Nn_connect (make_url_connect factory
            \<lparr>mode = LIVE, category = SYSTEM, group = ''master'', name = ''master''\<rparr> SUBSCRIBE),
          Nn_setsockopt_int NN_SOL_SOCKET NN_RCVTIMEO
            (if low_latency then 0 else DEFAULT_NOTICE_TIMEOUT D),
          Nn_setsockopt_str NN_SUB NN_SUB_SUBSCRIBE []]"
  by (auto simp: new_nanomsg_observer_def socket_new_def socket_connect_def socket_call_def
      setsockopt_int_def setsockopt_str_def get_protocol_def Let_def split: if_splits)

theorem observer_receive_timeout_witness:
  "new_nanomsg_observer demo_transport demo_deployment (ipc_url_factory demo_deployment) True =
     Inr \<lparr>obs_socket =
           \<lparr>sock_protocol = SUBSCRIBE,
            calls = [Nn_socket SUBSCRIBE, Nn_connect ''ipc://socket/system/master/master.pub'',
                     Nn_setsockopt_int NN_SOL_SOCKET NN_RCVTIMEO 0,
                     Nn_setsockopt_str NN_SUB NN_SUB_SUBSCRIBE []],
            sock_message = []\<rparr>\<rparr>
   \<and> rcvtimeo [Nn_socket SUBSCRIBE, Nn_connect ''ipc://socket/system/master/master.pub'',
               Nn_setsockopt_int NN_SOL_SOCKET NN_RCVTIMEO 0,
               Nn_setsockopt_str NN_SUB NN_SUB_SUBSCRIBE []] = Some 0
   \<and> new_nanomsg_observer demo_transport demo_deployment (ipc_url_factory demo_deployment) False =
     Inr demo_observer
   \<and> rcvtimeo (calls (obs_socket demo_observer)) = Some 1000"
proof -
  have low:
    "new_nanomsg_observer demo_transport demo_deployment (ipc_url_factory demo_deployment) True =
       Inr \<lparr>obs_socket =
             \<lparr>sock_protocol = SUBSCRIBE,
              calls = [Nn_socket SUBSCRIBE, Nn_connect ''ipc://socket/system/master/master.pub'',
                       Nn_setsockopt_int NN_SOL_SOCKET NN_RCVTIMEO 0,
                       Nn_setsockopt_str NN_SUB NN_SUB_SUBSCRIBE []],
              sock_message = []\<rparr>\<rparr>"
    by (simp add: new_nanomsg_observer_def demo_transport_def demo_simps)
  from observer_receive_timeout [OF low] observer_receive_timeout [OF demo_observer_made]
    low demo_observer_made
  show ?thesis by (simp add: demo_deployment_def demo_observer_def)
qed

text \<open>
  Claim C8: the active publisher, the observer and the master service client each connect
  their socket to the address that \<open>make_url_connect\<close> gives for one and the same
  location: mode LIVE, category SYSTEM, group \<open>master\<close> and name \<open>master\<close>.
\<close>

theorem master_location_shared:
  "(new_nanomsg_publisher T factory low_latency = Inr p \<longrightarrow>
      calls (pub_socket p) =
        [Nn_socket PUSH,
         Nn_connect (make_url_connect factory
           \<lparr>mode = LIVE, category = SYSTEM, group = ''master'', name = ''master''\<rparr> PUSH)])
   \<and> (new_nanomsg_observer T D factory low_latency = Inr ob \<longrightarrow>
      take 2 (calls (obs_socket ob)) =
        [Nn_socket SUBSCRIBE,
         Nn_connect (make_url_connect factory
           \<lparr>mode = LIVE, category = SYSTEM, group = ''master'', name = ''master''\<rparr> SUBSCRIBE)])
   \<and> (new_nanomsg_master_service T factory = Inr svc \<longrightarrow>
      calls (svc_socket svc) =
        [Nn_socket REQUEST,
         Nn_connect (make_url_connect factory
           \<lparr>mode = LIVE, category = SYSTEM, group = ''master'', name = ''master''\<rparr> REQUEST)])"
  by (auto simp: new_nanomsg_publisher_def new_nanomsg_observer_def new_nanomsg_master_service_def
      socket_new_def socket_connect_def socket_call_def setsockopt_int_def setsockopt_str_def
      get_protocol_def Let_def split: if_splits)

theorem master_location_shared_witness:
  "new_nanomsg_publisher demo_transport (ipc_url_factory demo_deployment) False =
     Inr demo_publisher
   \<and> calls (pub_socket demo_publisher) =
       [Nn_socket PUSH, Nn_connect ''ipc://socket/system/master/master.pull'']
   \<and> new_nanomsg_observer demo_transport demo_deployment (ipc_url_factory demo_deployment) False =
     Inr demo_observer
   \<and> take 2 (calls (obs_socket demo_observer)) =
       [Nn_socket SUBSCRIBE, Nn_connect ''ipc://socket/system/master/master.pub'']
   \<and> new_nanomsg_master_service demo_transport (ipc_url_factory demo_deployment) =
     Inr demo_service
   \<and> calls (svc_socket demo_service) =
       [Nn_socket REQUEST, Nn_connect ''ipc://socket/system/master/master.rep'']"
  using master_location_shared
    [of demo_transport "ipc_url_factory demo_deployment" False demo_publisher demo_deployment
        demo_observer demo_service]
    demo_publisher_made demo_observer_made demo_service_made
  by (simp add: demo_simps)

text \<open>
  Claim C9: whenever \<open>request\<close> returns a reply, the calls it has added to those of its
  socket are the send of the message and then one receive, nothing else; and when the
  transport fails neither call and the receive ends with a reply frame, \<open>request\<close>
  returns the bytes of that frame as they came.
\<close>

theorem request_round_trip:
  "(request T msg svc = Some (Inr r, svc') \<longrightarrow>
      calls (svc_socket svc') = calls (svc_socket svc) @ [Nn_send msg, Nn_recv])
   \<and> (\<not> refuses T (calls (svc_socket svc) @ [Nn_send msg])
      \<and> \<not> refuses T (calls (svc_socket svc) @ [Nn_send msg, Nn_recv])
      \<and> inbound T (calls (svc_socket svc) @ [Nn_send msg, Nn_recv]) = Frame reply \<longrightarrow>
      request T msg svc =
        Some (Inr reply,
              svc\<lparr>svc_socket := (svc_socket svc)
                    \<lparr>calls := calls (svc_socket svc) @ [Nn_send msg, Nn_recv],
                     sock_message := reply\<rparr>\<rparr>))"
  by (auto simp: request_def socket_send_def socket_recv_msg_def socket_recv_def Let_def
      split: if_splits recv_outcome.splits)

theorem request_round_trip_witness:
  "request demo_transport ''{\"request\": 1}'' demo_service =
     Some (Inr ''hello'',
           \<lparr>svc_socket =
              \<lparr>sock_protocol = REQUEST,
               calls = [Nn_socket REQUEST, Nn_connect ''ipc://socket/system/master/master.rep'',
                        Nn_send ''{\"request\": 1}'', Nn_recv],
               sock_message = ''hello''\<rparr>\<rparr>)
   \<and> [Nn_socket REQUEST, Nn_connect ''ipc://socket/system/master/master.rep'',
      Nn_send ''{\"request\": 1}'', Nn_recv] =
     calls (svc_socket demo_service) @ [Nn_send ''{\"request\": 1}'', Nn_recv]"
  using request_round_trip
    [of demo_transport "''{\"request\": 1}''" demo_service "''hello''"
        "\<lparr>svc_socket =
            \<lparr>sock_protocol = REQUEST,
             calls = [Nn_socket REQUEST, Nn_connect ''ipc://socket/system/master/master.rep'',
                      Nn_send ''{\"request\": 1}'', Nn_recv],
             sock_message = ''hello''\<rparr>\<rparr>"
        "''hello''"]
  by (simp add: demo_transport_def demo_service_def)

text \<open>
  Claim C10: a client device that its constructor or its factory returns has the lazy flag
  set, whatever name and low-latency flag were passed, and the flag is still set after any
  sequence of calls on the device.
\<close>

theorem io_device_client_always_lazy:
  "(new_io_device_client T D nm low_latency = Inr d \<longrightarrow> dev_lazy d)
   \<and> (client_create_io_device T D nm low_latency = Inr d \<longrightarrow>
        dev_lazy d \<and> (\<forall>cs d'. device_run T cs d = Some d' \<longrightarrow> dev_lazy d'))"
  using new_io_device_client_lazy client_create_io_device_lazy device_run_lazy by blast

theorem io_device_client_always_lazy_witness:
  "new_io_device_client demo_transport demo_deployment ''td'' False =
     Inr (demo_client\<lparr>dev_publisher := None\<rparr>)
   \<and> dev_lazy (demo_client\<lparr>dev_publisher := None\<rparr>)
   \<and> client_create_io_device demo_transport demo_deployment ''td'' False = Inr demo_client
   \<and> dev_lazy demo_client
   \<and> (case device_run demo_transport
             [Publisher_notify, Observer_wait, Observer_get_notice, Service_request ''{}'',
              Open_writer \<lparr>mode = LIVE, category = APPLICATION, group = ''g'', name = ''w''\<rparr>,
              Publisher_publish ''hello'']
             demo_client of
         None \<Rightarrow> False
       | Some d' \<Rightarrow> dev_lazy d')"
proof -
  have "\<exists>d'. device_run demo_transport
             [Publisher_notify, Observer_wait, Observer_get_notice, Service_request ''{}'',
              Open_writer \<lparr>mode = LIVE, category = APPLICATION, group = ''g'', name = ''w''\<rparr>,
              Publisher_publish ''hello'']
             demo_client = Some d'"
    by (simp add: demo_client_def demo_publisher_def demo_observer_def demo_service_def
        demo_transport_def nanomsg_publisher_notify_def nanomsg_publisher_publish_def
        socket_send_def wait_def socket_recv_def request_def socket_recv_msg_def
        open_writer_def new_writer_def get_notice_def last_message_def)
  then obtain d' where run: "device_run demo_transport
             [Publisher_notify, Observer_wait, Observer_get_notice, Service_request ''{}'',
              Open_writer \<lparr>mode = LIVE, category = APPLICATION, group = ''g'', name = ''w''\<rparr>,
              Publisher_publish ''hello'']
             demo_client = Some d'" ..
  have constructed: "dev_lazy (demo_client\<lparr>dev_publisher := None\<rparr>)"
    using io_device_client_always_lazy
      [of demo_transport demo_deployment "''td''" False "demo_client\<lparr>dev_publisher := None\<rparr>"]
      demo_client_constructed
    by blast
  have made: "dev_lazy demo_client" and after: "dev_lazy d'"
    using io_device_client_always_lazy
      [of demo_transport demo_deployment "''td''" False demo_client]
      demo_client_made run
    by blast+
  show ?thesis
    unfolding run using demo_client_constructed demo_client_made constructed made after
    by simp
qed

end
